theory Spec2Isabelle
  imports Main "HOL-Library.Word"
begin

section \<open>Data model of the execution-layer cache\<close>

text \<open>
  The Go package \<^verbatim>\<open>executionlayer\<close> keeps two indices and a block watermark.
  Byte arrays of fixed width are words of that width: \<^verbatim>\<open>common.Address\<close> is
  20 bytes, \<^verbatim>\<open>common.Hash\<close> 32 bytes, \<^verbatim>\<open>rptypes.ValidatorPubkey\<close> 48 bytes, and
  \<^verbatim>\<open>bytes.Equal\<close> on them is equality. \<^verbatim>\<open>*big.Int\<close> is \<open>int\<close>.
\<close>

type_synonym address = "160 word"
type_synonym hash = "256 word"
type_synonym pubkey = "384 word"
type_synonym byte = "8 word"

record nodeInfo =
  inSmoothingPool :: bool
  feeDistributor :: address

text \<open>The fields of \<^verbatim>\<open>types.Log\<close> that the package reads.\<close>

record Log =
  Address :: address
  Topics :: "hash list"
  Data :: "byte list"
  BlockNumber :: "64 word"

text \<open>
  \<^verbatim>\<open>ethereum.FilterQuery\<close>: contract addresses, block range (absent for a
  subscription), and one position of alternative topics.
\<close>

record FilterQuery =
  Addresses :: "address list"
  FromBlock :: "int option"
  ToBlock :: "int option"
  QueryTopics :: "hash list list"

text \<open>
  The \<^verbatim>\<open>ExecutionLayer\<close> struct. \<open>nodeIndex\<close> holds pointers to \<^verbatim>\<open>nodeInfo\<close>
  cells, so the cells live in an explicit store: \<open>heap\<close> maps a pointer to the
  cell it designates and \<open>nextPtr\<close> is the next unused pointer. The three contract
  handles are kept by their address, the only part of them the package uses.
  \<open>ethclientShutdownCb\<close> records whether the callback is non-nil, and
  \<open>ingestorStarted\<close> whether the goroutine that consumes the two subscriptions
  has been started.
\<close>

record ExecutionLayer =
  rocketNodeManager :: address
  rocketMinipoolManager :: address
  smoothingPool :: address
  nodeRegisteredTopic :: hash
  smoothingPoolStatusChangedTopic :: hash
  minipoolLaunchedTopic :: hash
  query :: FilterQuery
  minipoolIndex :: "pubkey \<rightharpoonup> address"
  nodeIndex :: "address \<rightharpoonup> nat"
  heap :: "nat \<Rightarrow> nodeInfo"
  nextPtr :: nat
  highestBlock :: int
  ethclientShutdownCb :: bool
  ingestorStarted :: bool
  shutdown :: bool

text \<open>Errors returned by the chain adapter are opaque; panics end the process.\<close>

datatype error = RpcError nat

datatype panic = IndexOutOfRange | CouldntBackfill | CouldntReconnect

text \<open>
  The answers of the upstream client and of the rocketpool-go bindings, which are
  not part of this package. \<^verbatim>\<open>GetDistributorAddress\<close> returns an address together
  with its error, as the Go function does, because one caller uses the address
  without regard to the error. \<open>Keccak256Hash\<close> is the hash of an event signature.
\<close>

record rpc =
  Dial :: "error option"
  NewRocketPool :: "error option"
  HeaderByNumber :: "error + int"
  GetContract :: "string \<Rightarrow> error + address"
  GetNodes :: "error + address list"
  GetSmoothingPoolRegistrationState :: "address \<Rightarrow> error + bool"
  GetDistributorAddress :: "address \<Rightarrow> address \<times> error option"
  GetNodeMinipools :: "address \<Rightarrow> error + pubkey list"
  GetMinipoolDetails :: "address \<Rightarrow> error + pubkey"
  FilterLogs :: "FilterQuery \<Rightarrow> error + Log list"
  SubscribeFilterLogs :: "error option"
  SubscribeNewHead :: "error option"
  Keccak256Hash :: "string \<Rightarrow> hash"

section \<open>Read path\<close>

text \<open>Loading a node: the index gives a pointer, the store gives the cell.\<close>

definition NodeIndex :: "ExecutionLayer \<Rightarrow> address \<rightharpoonup> nodeInfo" where
  "NodeIndex e a = map_option (heap e) (nodeIndex e a)"

definition ValidatorFeeRecipient ::
  "ExecutionLayer \<Rightarrow> pubkey \<Rightarrow> address option \<Rightarrow> address option \<times> bool" where
  "ValidatorFeeRecipient e pk queryNodeAddr =
     (case minipoolIndex e pk of
        None \<Rightarrow> (None, False)
      | Some nodeAddr \<Rightarrow>
          if queryNodeAddr \<noteq> None \<and> the queryNodeAddr \<noteq> nodeAddr then (None, True)
          else (case nodeIndex e nodeAddr of
                  None \<Rightarrow> (None, False)
                | Some ptr \<Rightarrow>
                    if inSmoothingPool (heap e ptr) then (Some (smoothingPool e), False)
                    else (Some (feeDistributor (heap e ptr)), False)))"

section \<open>Event handler\<close>

text \<open>
  \<^verbatim>\<open>common.BytesToAddress\<close> of the 32 bytes of a topic crops from the left and
  keeps the last 20 bytes. \<^verbatim>\<open>big.Int.SetBytes\<close> reads a big-endian unsigned
  integer. Indexing \<^verbatim>\<open>event.Topics\<close> beyond its length panics.
\<close>

definition BytesToAddress :: "hash \<Rightarrow> address" where
  "BytesToAddress h = ucast h"

definition SetBytes :: "byte list \<Rightarrow> int" where
  "SetBytes bs = foldl (\<lambda>a b. a * 256 + uint b) 0 bs"

definition topic :: "Log \<Rightarrow> nat \<Rightarrow> panic + hash" where
  "topic ev i = (if i < length (Topics ev) then Inr (Topics ev ! i) else Inl IndexOutOfRange)"

text \<open>\<^verbatim>\<open>&nodeInfo{}\<close>: a fresh zero-valued cell and the pointer to it.\<close>

definition newNodeInfo :: "ExecutionLayer \<Rightarrow> nat \<times> ExecutionLayer" where
  "newNodeInfo e =
     (nextPtr e,
      e\<lparr>heap := (heap e)(nextPtr e := \<lparr>inSmoothingPool = False, feeDistributor = 0\<rparr>),
        nextPtr := Suc (nextPtr e)\<rparr>)"

definition handleNodeEvent :: "rpc \<Rightarrow> ExecutionLayer \<Rightarrow> Log \<Rightarrow> panic + ExecutionLayer" where
  "handleNodeEvent c e ev =
     (case topic ev 0 of
        Inl p \<Rightarrow> Inl p
      | Inr t0 \<Rightarrow>
          if t0 = nodeRegisteredTopic e then
            (case newNodeInfo e of
               (n, e1) \<Rightarrow>
                 (case topic ev 1 of
                    Inl p \<Rightarrow> Inl p
                  | Inr t1 \<Rightarrow>
                      Inr (e1\<lparr>nodeIndex := (nodeIndex e1)(BytesToAddress t1 \<mapsto> n)\<rparr>)))
          else if t0 = smoothingPoolStatusChangedTopic e then
            (case topic ev 1 of
               Inl p \<Rightarrow> Inl p
             | Inr t1 \<Rightarrow>
                 (let nodeAddr = BytesToAddress t1;
                      status = SetBytes (Data ev)
                  in case nodeIndex e nodeAddr of
                       Some n \<Rightarrow>
                         Inr (e\<lparr>heap := (heap e)
                                (n := (heap e n)\<lparr>inSmoothingPool := (status = 1)\<rparr>)\<rparr>)
                     | None \<Rightarrow>
                         (case newNodeInfo e of
                            (n, e1) \<Rightarrow>
                              (let e2 = e1\<lparr>heap := (heap e1)
                                          (n := (heap e1 n)
                                             \<lparr>feeDistributor :=
                                                fst (GetDistributorAddress c nodeAddr)\<rparr>)\<rparr>
                               in Inr (e2\<lparr>heap := (heap e2)
                                         (n := (heap e2 n)
                                            \<lparr>inSmoothingPool := (status = 1)\<rparr>)\<rparr>)))))
          else Inr e)"

definition handleMinipoolEvent :: "rpc \<Rightarrow> ExecutionLayer \<Rightarrow> Log \<Rightarrow> panic + ExecutionLayer" where
  "handleMinipoolEvent c e ev =
     (case topic ev 0 of
        Inl p \<Rightarrow> Inl p
      | Inr t0 \<Rightarrow>
          if t0 \<noteq> minipoolLaunchedTopic e then Inr e
          else
            (case topic ev 2 of
               Inl p \<Rightarrow> Inl p
             | Inr t2 \<Rightarrow>
                 (case topic ev 1 of
                    Inl p \<Rightarrow> Inl p
                  | Inr t1 \<Rightarrow>
                      (case GetMinipoolDetails c (BytesToAddress t1) of
                         Inl err \<Rightarrow> Inr e
                       | Inr pk \<Rightarrow>
                           Inr (e\<lparr>minipoolIndex :=
                                   (minipoolIndex e)(pk \<mapsto> BytesToAddress t2)\<rparr>)))))"

text \<open>
  \<^verbatim>\<open>big.NewInt(int64(event.BlockNumber))\<close>: the unsigned block number is read as a
  signed 64-bit value.
\<close>

definition handleEvent :: "rpc \<Rightarrow> ExecutionLayer \<Rightarrow> Log \<Rightarrow> panic + ExecutionLayer" where
  "handleEvent c e ev =
     (case (if rocketNodeManager e = Address ev then handleNodeEvent c e ev
            else if rocketMinipoolManager e = Address ev then handleMinipoolEvent c e ev
            else Inr e) of
        Inl p \<Rightarrow> Inl p
      | Inr e' \<Rightarrow> Inr (e'\<lparr>highestBlock := sint (BlockNumber ev)\<rparr>))"

section \<open>Back-fill\<close>

text \<open>
  What \<^verbatim>\<open>backfillEvents\<close> leaves behind besides the state: its error, the
  \<^verbatim>\<open>FilterLogs\<close> calls it made, and the fields of its final debug line (absent
  when that line is not reached).
\<close>

record backfillDebug =
  events :: nat
  blocks :: "64 word"
  start :: "64 word"
  stop :: "64 word"

record backfillResult =
  err :: "error option"
  filterCalls :: "FilterQuery list"
  debug :: "backfillDebug option"
  el :: ExecutionLayer

definition backfillStart :: "ExecutionLayer \<Rightarrow> int" where
  "backfillStart e = highestBlock e + 1"

definition backfillQuery :: "ExecutionLayer \<Rightarrow> int \<Rightarrow> int \<Rightarrow> FilterQuery" where
  "backfillQuery e from to =
     \<lparr>Addresses = [rocketMinipoolManager e, rocketNodeManager e],
      FromBlock = Some from,
      ToBlock = Some to,
      QueryTopics = [[nodeRegisteredTopic e, smoothingPoolStatusChangedTopic e,
                      minipoolLaunchedTopic e]]\<rparr>"

fun replay :: "rpc \<Rightarrow> ExecutionLayer \<Rightarrow> Log list \<Rightarrow> panic + ExecutionLayer" where
  "replay c e [] = Inr e"
| "replay c e (ev # evs) =
     (case handleEvent c e ev of Inl p \<Rightarrow> Inl p | Inr e' \<Rightarrow> replay c e' evs)"

definition backfillEvents :: "rpc \<Rightarrow> ExecutionLayer \<Rightarrow> panic + backfillResult" where
  "backfillEvents c e =
     (let from = backfillStart e in
      case HeaderByNumber c of
        Inl x \<Rightarrow> Inr \<lparr>err = Some x, filterCalls = [], debug = None, el = e\<rparr>
      | Inr to \<Rightarrow>
          if to < from then Inr \<lparr>err = None, filterCalls = [], debug = None, el = e\<rparr>
          else
            (let q = backfillQuery e from to in
             case FilterLogs c q of
               Inl x \<Rightarrow> Inr \<lparr>err = Some x, filterCalls = [q], debug = None, el = e\<rparr>
             | Inr missedEvents \<Rightarrow>
                 (case replay c e missedEvents of
                    Inl p \<Rightarrow> Inl p
                  | Inr e' \<Rightarrow>
                      (let delta = (to - from) + 1 in
                       Inr \<lparr>err = None, filterCalls = [q],
                            debug = Some \<lparr>events = length missedEvents,
                                          blocks = word_of_int delta,
                                          start = word_of_int from,
                                          stop = word_of_int to\<rparr>,
                            el = e'\<lparr>highestBlock := to\<rparr>\<rparr>))))"

section \<open>Reconnector\<close>

definition reconnectRetries :: nat where
  "reconnectRetries = 10"

text \<open>
  What \<^verbatim>\<open>handleSubscriptionError\<close> leaves behind: the arguments of its
  \<^verbatim>\<open>time.Sleep\<close> calls in seconds, in order; the number of attempts it announced
  (one \<^verbatim>\<open>SubscribeFilterLogs\<close> call each); and either the panic that ended it or
  the state it returned with.
\<close>

record reconnectResult =
  sleeps :: "nat list"
  attempts :: nat
  outcome :: "panic + ExecutionLayer"

text \<open>
  The \<^verbatim>\<open>for i := 0; i < reconnectRetries; i++\<close> loop. The adapter's answers
  change from one attempt to the next: \<open>w i\<close> holds those of the iteration with
  loop index \<open>i\<close>. \<open>sl\<close> accumulates the sleeps made so far.
\<close>

function reconnectLoop ::
  "(nat \<Rightarrow> rpc) \<Rightarrow> ExecutionLayer \<Rightarrow> nat \<Rightarrow> nat list \<Rightarrow> reconnectResult" where
  "reconnectLoop w e i sl =
     (if i < reconnectRetries then
        (case SubscribeFilterLogs (w i) of
           None \<Rightarrow>
             (case SubscribeNewHead (w i) of
                Some x \<Rightarrow>
                  \<lparr>sleeps = sl, attempts = Suc i, outcome = Inl CouldntReconnect\<rparr>
              | None \<Rightarrow>
                  (case backfillEvents (w i) (e\<lparr>ethclientShutdownCb := True\<rparr>) of
                     Inl p \<Rightarrow> \<lparr>sleeps = sl, attempts = Suc i, outcome = Inl p\<rparr>
                   | Inr r \<Rightarrow>
                       (case err r of
                          Some x \<Rightarrow>
                            \<lparr>sleeps = sl, attempts = Suc i, outcome = Inl CouldntBackfill\<rparr>
                        | None \<Rightarrow>
                            \<lparr>sleeps = sl, attempts = Suc i, outcome = Inr (el r)\<rparr>)))
         | Some x \<Rightarrow> reconnectLoop w e (Suc i) (sl @ [i * 5]))
      else \<lparr>sleeps = sl, attempts = i, outcome = Inl CouldntReconnect\<rparr>)"
  by pat_completeness auto
termination
  by (relation "measure (\<lambda>(w, e, i, sl). reconnectRetries - i)") auto

declare reconnectLoop.simps [simp del]

definition handleSubscriptionError :: "(nat \<Rightarrow> rpc) \<Rightarrow> ExecutionLayer \<Rightarrow> reconnectResult" where
  "handleSubscriptionError w e =
     (if shutdown e then \<lparr>sleeps = [], attempts = 0, outcome = Inr e\<rparr>
      else reconnectLoop w e 0 [])"

section \<open>Event ingestor\<close>

text \<open>
  What the \<^verbatim>\<open>select\<close> of the ingestor goroutine can receive: an error from either
  subscription (with the adapter's answers during the reconnection that follows),
  a log or the closing of the log channel, a header number or the closing of the
  header channel.
\<close>

datatype msg =
    LogSubErr "nat \<Rightarrow> rpc"
  | HeadSubErr "nat \<Rightarrow> rpc"
  | EventMsg Log
  | EventsClosed
  | HeaderMsg int
  | HeadersClosed

text \<open>
  The loop of the goroutine over the messages in the order the \<^verbatim>\<open>select\<close> takes
  them, with its two flags \<^verbatim>\<open>noMoreEvents\<close> and \<^verbatim>\<open>noMoreHeaders\<close>; \<open>c\<close> answers
  the calls the event handlers make. The result is the state when the loop ends
  or has consumed every message, or the panic that ended the process.
\<close>

fun ingest :: "rpc \<Rightarrow> ExecutionLayer \<Rightarrow> bool \<Rightarrow> bool \<Rightarrow> msg list \<Rightarrow> panic + ExecutionLayer" where
  "ingest c e noMoreEvents noMoreHeaders [] = Inr e"
| "ingest c e noMoreEvents noMoreHeaders (LogSubErr w # ms) =
     (case outcome (handleSubscriptionError w e) of
        Inl p \<Rightarrow> Inl p
      | Inr e' \<Rightarrow>
          if noMoreEvents \<and> noMoreHeaders then Inr e'
          else ingest c e' noMoreEvents noMoreHeaders ms)"
| "ingest c e noMoreEvents noMoreHeaders (HeadSubErr w # ms) =
     (case outcome (handleSubscriptionError w e) of
        Inl p \<Rightarrow> Inl p
      | Inr e' \<Rightarrow>
          if noMoreEvents \<and> noMoreHeaders then Inr e'
          else ingest c e' noMoreEvents noMoreHeaders ms)"
| "ingest c e noMoreEvents noMoreHeaders (EventMsg event # ms) =
     (case handleEvent c e event of
        Inl p \<Rightarrow> Inl p
      | Inr e' \<Rightarrow> ingest c e' False noMoreHeaders ms)"
| "ingest c e noMoreEvents noMoreHeaders (EventsClosed # ms) =
     (if noMoreHeaders then Inr e else ingest c e True noMoreHeaders ms)"
| "ingest c e noMoreEvents noMoreHeaders (HeaderMsg number # ms) =
     (if highestBlock e \<ge> number then ingest c e noMoreEvents False ms
      else ingest c (e\<lparr>highestBlock := number\<rparr>) noMoreEvents False ms)"
| "ingest c e noMoreEvents noMoreHeaders (HeadersClosed # ms) =
     (if noMoreEvents then Inr e else ingest c e noMoreEvents True ms)"

section \<open>Initialisation\<close>

text \<open>
  \<^verbatim>\<open>ecEventsConnect\<close> with \<^verbatim>\<open>opts.BlockNumber\<close> as \<open>blockNumber\<close>. It returns its
  error beside the state, which it has already changed when it gives up.
\<close>

definition ecEventsConnect ::
  "rpc \<Rightarrow> int \<Rightarrow> ExecutionLayer \<Rightarrow> panic + (error option \<times> ExecutionLayer)" where
  "ecEventsConnect c blockNumber e =
     (let e1 = e\<lparr>nodeRegisteredTopic := Keccak256Hash c ''NodeRegistered(address,uint256)'',
                 smoothingPoolStatusChangedTopic :=
                   Keccak256Hash c ''NodeSmoothingPoolStateChanged(address,bool)'',
                 minipoolLaunchedTopic :=
                   Keccak256Hash c ''MinipoolCreated(address,address,uint256)''\<rparr>;
          e2 = e1\<lparr>query :=
                    \<lparr>Addresses = [rocketMinipoolManager e1, rocketNodeManager e1],
                     FromBlock = None,
                     ToBlock = None,
                     QueryTopics = [[nodeRegisteredTopic e1,
                                     smoothingPoolStatusChangedTopic e1,
                                     minipoolLaunchedTopic e1]]\<rparr>,
                  highestBlock := blockNumber\<rparr>
      in case SubscribeFilterLogs c of
           Some x \<Rightarrow> Inr (Some x, e2)
         | None \<Rightarrow>
             (case SubscribeNewHead c of
                Some x \<Rightarrow> Inr (Some x, e2)
              | None \<Rightarrow>
                  (case backfillEvents c e2 of
                     Inl p \<Rightarrow> Inl p
                   | Inr r \<Rightarrow>
                       (case err r of
                          Some x \<Rightarrow> Inr (Some x, el r)
                        | None \<Rightarrow>
                            Inr (None, (el r)\<lparr>ethclientShutdownCb := True,
                                             ingestorStarted := True\<rparr>)))))"

text \<open>The snapshot loop of \<^verbatim>\<open>Init\<close> over the nodes found at the pinned block.\<close>

fun loadNodes :: "rpc \<Rightarrow> ExecutionLayer \<Rightarrow> address list \<Rightarrow> error option \<times> ExecutionLayer" where
  "loadNodes c e [] = (None, e)"
| "loadNodes c e (n # ns) =
     (case newNodeInfo e of
        (ptr, e1) \<Rightarrow>
          (case GetSmoothingPoolRegistrationState c n of
             Inl x \<Rightarrow> (Some x, e1)
           | Inr b \<Rightarrow>
               (let e2 = e1\<lparr>heap := (heap e1)(ptr := (heap e1 ptr)\<lparr>inSmoothingPool := b\<rparr>)\<rparr>;
                    e3 = e2\<lparr>heap := (heap e2)
                              (ptr := (heap e2 ptr)
                                 \<lparr>feeDistributor := fst (GetDistributorAddress c n)\<rparr>)\<rparr>
                in case snd (GetDistributorAddress c n) of
                     Some x \<Rightarrow> (Some x, e3)
                   | None \<Rightarrow>
                       (let e4 = e3\<lparr>nodeIndex := (nodeIndex e3)(n \<mapsto> ptr)\<rparr>
                        in case GetNodeMinipools c n of
                             Inl x \<Rightarrow> (Some x, e4)
                           | Inr minipools \<Rightarrow>
                               loadNodes c
                                 (e4\<lparr>minipoolIndex :=
                                       foldl (\<lambda>m pk. m(pk \<mapsto> n)) (minipoolIndex e4) minipools\<rparr>)
                                 ns))))"

text \<open>
  \<^verbatim>\<open>Init\<close>. The chain advances while the snapshot is taken, so the adapter's
  answers during the snapshot (\<open>c\<close>) and during \<^verbatim>\<open>ecEventsConnect\<close> (\<open>c'\<close>) are
  two records. The value \<^verbatim>\<open>ecEventsConnect\<close> returns is dropped, as in the source.
  Where a contract handle cannot be loaded the source stores the nil it received
  and returns the error; the state returned here keeps the field as it was.
\<close>

definition Init :: "rpc \<Rightarrow> rpc \<Rightarrow> ExecutionLayer \<Rightarrow> panic + (error option \<times> ExecutionLayer)" where
  "Init c c' e =
     (case Dial c of
        Some x \<Rightarrow> Inr (Some x, e)
      | None \<Rightarrow>
     (case NewRocketPool c of
        Some x \<Rightarrow> Inr (Some x, e)
      | None \<Rightarrow>
     (case HeaderByNumber c of
        Inl x \<Rightarrow> Inr (Some x, e)
      | Inr number \<Rightarrow>
     (case GetContract c ''rocketNodeManager'' of
        Inl x \<Rightarrow> Inr (Some x, e)
      | Inr nm \<Rightarrow>
     (case GetContract c ''rocketMinipoolManager'' of
        Inl x \<Rightarrow> Inr (Some x, e\<lparr>rocketNodeManager := nm\<rparr>)
      | Inr mm \<Rightarrow>
     (case GetContract c ''rocketSmoothingPool'' of
        Inl x \<Rightarrow> Inr (Some x, e\<lparr>rocketNodeManager := nm, rocketMinipoolManager := mm\<rparr>)
      | Inr sp \<Rightarrow>
     (let e1 = e\<lparr>rocketNodeManager := nm, rocketMinipoolManager := mm, smoothingPool := sp\<rparr>
      in case GetNodes c of
           Inl x \<Rightarrow> Inr (Some x, e1)
         | Inr nodes \<Rightarrow>
             (case loadNodes c e1 nodes of
                (Some x, e2) \<Rightarrow> Inr (Some x, e2)
              | (None, e2) \<Rightarrow>
                  (case ecEventsConnect c' number e2 of
                     Inl p \<Rightarrow> Inl p
                   | Inr (ignored, e3) \<Rightarrow> Inr (None, e3))))))))))"

text \<open>
  \<^verbatim>\<open>NewExecutionLayer\<close>: empty indices, every other field at its zero value
  (\<open>highestBlock\<close> is a nil pointer until \<^verbatim>\<open>ecEventsConnect\<close> assigns it; it is
  never read before).
\<close>

definition NewExecutionLayer :: ExecutionLayer where
  "NewExecutionLayer =
     \<lparr>rocketNodeManager = 0, rocketMinipoolManager = 0, smoothingPool = 0,
      nodeRegisteredTopic = 0, smoothingPoolStatusChangedTopic = 0,
      minipoolLaunchedTopic = 0,
      query = \<lparr>Addresses = [], FromBlock = None, ToBlock = None, QueryTopics = []\<rparr>,
      minipoolIndex = Map.empty, nodeIndex = Map.empty,
      heap = (\<lambda>p. \<lparr>inSmoothingPool = False, feeDistributor = 0\<rparr>), nextPtr = 0,
      highestBlock = 0,
      ethclientShutdownCb = False, ingestorStarted = False, shutdown = False\<rparr>"

section \<open>Sample inputs\<close>

text \<open>
  A state as \<^verbatim>\<open>Init\<close> leaves it on a chain with no node yet, pinned at block 100,
  and an adapter whose calls all succeed. The instances of the theorems below are
  taken at these and at variations of them.
\<close>

definition sampleLayer :: ExecutionLayer where
  "sampleLayer =
     NewExecutionLayer
       \<lparr>rocketNodeManager := 1, rocketMinipoolManager := 2, smoothingPool := 3,
        nodeRegisteredTopic := 11, smoothingPoolStatusChangedTopic := 12,
        minipoolLaunchedTopic := 13, highestBlock := 100\<rparr>"

definition sampleRpc :: rpc where
  "sampleRpc =
     \<lparr>Dial = None, NewRocketPool = None, HeaderByNumber = Inr 100,
      GetContract = (\<lambda>name. if name = ''rocketNodeManager'' then Inr 1
                            else if name = ''rocketMinipoolManager'' then Inr 2
                            else Inr 3),
      GetNodes = Inr [],
      GetSmoothingPoolRegistrationState = (\<lambda>n. Inr False),
      GetDistributorAddress = (\<lambda>n. (n + 1000, None)),
      GetNodeMinipools = (\<lambda>n. Inr []),
      GetMinipoolDetails = (\<lambda>m. Inr (ucast m + 5000)),
      FilterLogs = (\<lambda>q. Inr []),
      SubscribeFilterLogs = None, SubscribeNewHead = None,
      Keccak256Hash = (\<lambda>s. if s = ''NodeRegistered(address,uint256)'' then 11
                              else if s = ''NodeSmoothingPoolStateChanged(address,bool)'' then 12
                              else 13)\<rparr>"

section \<open>Properties\<close>

subsection \<open>The read path\<close>

text \<open>
  C1. \<open>ValidatorFeeRecipient\<close> follows the five-row table: unknown validator,
  claimed owner mismatch, orphan, smoothing-pool member, solo operator; and the
  mismatch flag is set exactly when the pubkey is a known minipool and a claimed
  node address is present and differs from the owning node.
\<close>

theorem ValidatorFeeRecipient_table:
  "ValidatorFeeRecipient e p q =
     (case minipoolIndex e p of
        None \<Rightarrow> (None, False)
      | Some n \<Rightarrow>
          (case q of
             Some q' \<Rightarrow>
               if q' \<noteq> n then (None, True)
               else (case NodeIndex e n of
                       None \<Rightarrow> (None, False)
                     | Some i \<Rightarrow> if inSmoothingPool i then (Some (smoothingPool e), False)
                                else (Some (feeDistributor i), False))
           | None \<Rightarrow>
               (case NodeIndex e n of
                  None \<Rightarrow> (None, False)
                | Some i \<Rightarrow> if inSmoothingPool i then (Some (smoothingPool e), False)
                           else (Some (feeDistributor i), False))))
   \<and> (snd (ValidatorFeeRecipient e p q) =
        (case (minipoolIndex e p, q) of
           (Some n, Some q') \<Rightarrow> q' \<noteq> n
         | _ \<Rightarrow> False))"
  by (simp add: ValidatorFeeRecipient_def NodeIndex_def split: option.splits)

subsection \<open>The watermark does not influence the handlers\<close>

text \<open>
  \<^verbatim>\<open>handleEvent\<close> overwrites \<open>highestBlock\<close> and never reads it, so a state that
  differs only in the watermark is handled alike. The live loop over logs alone is
  the loop \<open>replay\<close> of the back-fill.
\<close>

lemma handleNodeEvent_highestBlock:
  "handleNodeEvent c (e\<lparr>highestBlock := h\<rparr>) ev =
     map_sum id (\<lambda>e'. e'\<lparr>highestBlock := h\<rparr>) (handleNodeEvent c e ev)"
  by (simp add: handleNodeEvent_def newNodeInfo_def Let_def split: sum.splits option.splits)

lemma handleMinipoolEvent_highestBlock:
  "handleMinipoolEvent c (e\<lparr>highestBlock := h\<rparr>) ev =
     map_sum id (\<lambda>e'. e'\<lparr>highestBlock := h\<rparr>) (handleMinipoolEvent c e ev)"
  by (simp add: handleMinipoolEvent_def split: sum.splits)

lemma handleEvent_highestBlock:
  "handleEvent c (e\<lparr>highestBlock := h\<rparr>) ev = handleEvent c e ev"
  by (cases "handleNodeEvent c e ev"; cases "handleMinipoolEvent c e ev")
     (simp_all add: handleEvent_def handleNodeEvent_highestBlock handleMinipoolEvent_highestBlock)

lemma replay_append:
  "replay c e (xs @ ys) =
     (case replay c e xs of Inl p \<Rightarrow> Inl p | Inr e' \<Rightarrow> replay c e' ys)"
  by (induction xs arbitrary: e) (simp_all split: sum.splits)

lemma ingest_events:
  "ingest c e a b (map EventMsg evs) = replay c e evs"
  by (induction evs arbitrary: e a) (simp_all split: sum.splits)

lemma NodeIndex_highestBlock: "NodeIndex (e\<lparr>highestBlock := h\<rparr>) = NodeIndex e"
  by (simp add: NodeIndex_def fun_eq_iff)

lemma replay_indices_highestBlock:
  "map_sum id (\<lambda>x. (minipoolIndex x, NodeIndex x)) (replay c (e\<lparr>highestBlock := h\<rparr>) evs)
   = map_sum id (\<lambda>x. (minipoolIndex x, NodeIndex x)) (replay c e evs)"
  by (cases evs) (simp_all add: handleEvent_highestBlock NodeIndex_highestBlock)

subsection \<open>Event handler\<close>

text \<open>
  C2. A \<^verbatim>\<open>NodeSmoothingPoolStateChanged\<close> event for a node that is absent from the node
  index: the handler allocates a cell, fills in the fee distributor and the
  decoded state, and returns, but it never stores the cell in the index. The index
  is unchanged and a lookup of the node right after the handler still fails, where
  the claim has it succeed.
\<close>

theorem stateChanged_unknown_node_not_inserted:
  assumes "rocketNodeManager e = Address ev"
    and "Topics ev = t0 # t1 # ts"
    and "t0 = smoothingPoolStatusChangedTopic e"
    and "t0 \<noteq> nodeRegisteredTopic e"
    and "nodeIndex e (BytesToAddress t1) = None"
  shows "\<exists>e'. handleEvent c e ev = Inr e'
           \<and> nodeIndex e' = nodeIndex e
           \<and> NodeIndex e' (BytesToAddress t1) = None"
  using assms
  by (simp add: handleEvent_def handleNodeEvent_def topic_def newNodeInfo_def NodeIndex_def
      Let_def)

theorem stateChanged_unknown_node_not_inserted_witness:
  "nodeIndex sampleLayer (BytesToAddress 21) = None
   \<and> (\<exists>e'. handleEvent sampleRpc sampleLayer
              \<lparr>Address = 1, Topics = [12, 21], Data = [1], BlockNumber = 101\<rparr> = Inr e'
         \<and> nodeIndex e' = nodeIndex sampleLayer
         \<and> NodeIndex e' (BytesToAddress 21) = None)"
proof -
  let ?ev = "\<lparr>Address = 1, Topics = [12, 21], Data = [1], BlockNumber = 101\<rparr> :: Log"
  have h1: "rocketNodeManager sampleLayer = Address ?ev"
    by (simp add: sampleLayer_def)
  have h2: "Topics ?ev = 12 # 21 # []" by simp
  have h3: "(12 :: hash) = smoothingPoolStatusChangedTopic sampleLayer"
    by (simp add: sampleLayer_def)
  have h4: "(12 :: hash) \<noteq> nodeRegisteredTopic sampleLayer"
    by (simp add: sampleLayer_def)
  have h5: "nodeIndex sampleLayer (BytesToAddress 21) = None"
    by (simp add: sampleLayer_def NewExecutionLayer_def)
  from stateChanged_unknown_node_not_inserted[OF h1 h2 h3 h4 h5, of sampleRpc] h5
  show ?thesis by simp
qed

text \<open>
  C9. A \<^verbatim>\<open>NodeRegistered\<close> event stores a fresh zero-valued cell under the node's
  address whatever the index held before: afterwards the node is recorded as
  outside the smoothing pool with the zero address as fee distributor.
\<close>

theorem NodeRegistered_overwrites:
  assumes "rocketNodeManager e = Address ev"
    and "Topics ev = t0 # t1 # ts"
    and "t0 = nodeRegisteredTopic e"
  shows "\<exists>e'. handleEvent c e ev = Inr e'
           \<and> NodeIndex e' (BytesToAddress t1) = Some \<lparr>inSmoothingPool = False, feeDistributor = 0\<rparr>"
  using assms
  by (simp add: handleEvent_def handleNodeEvent_def topic_def newNodeInfo_def NodeIndex_def)

theorem NodeRegistered_overwrites_witness:
  "NodeIndex (sampleLayer\<lparr>nodeIndex := [21 \<mapsto> 0],
                          heap := (\<lambda>p. \<lparr>inSmoothingPool = True, feeDistributor = 1021\<rparr>),
                          nextPtr := 1\<rparr>) 21
     = Some \<lparr>inSmoothingPool = True, feeDistributor = 1021\<rparr>
   \<and> (\<exists>e'. handleEvent sampleRpc
              (sampleLayer\<lparr>nodeIndex := [21 \<mapsto> 0],
                           heap := (\<lambda>p. \<lparr>inSmoothingPool = True, feeDistributor = 1021\<rparr>),
                           nextPtr := 1\<rparr>)
              \<lparr>Address = 1, Topics = [11, 21], Data = [], BlockNumber = 102\<rparr> = Inr e'
         \<and> NodeIndex e' 21 = Some \<lparr>inSmoothingPool = False, feeDistributor = 0\<rparr>)"
proof -
  let ?e = "sampleLayer\<lparr>nodeIndex := [21 \<mapsto> 0],
                        heap := (\<lambda>p. \<lparr>inSmoothingPool = True, feeDistributor = 1021\<rparr>),
                        nextPtr := 1\<rparr>"
  let ?ev = "\<lparr>Address = 1, Topics = [11, 21], Data = [], BlockNumber = 102\<rparr> :: Log"
  have h1: "rocketNodeManager ?e = Address ?ev" by (simp add: sampleLayer_def)
  have h2: "Topics ?ev = 11 # 21 # []" by simp
  have h3: "(11 :: hash) = nodeRegisteredTopic ?e" by (simp add: sampleLayer_def)
  have before: "NodeIndex ?e 21 = Some \<lparr>inSmoothingPool = True, feeDistributor = 1021\<rparr>"
    by (simp add: NodeIndex_def)
  have a: "BytesToAddress 21 = 21" by (simp add: BytesToAddress_def)
  from NodeRegistered_overwrites[OF h1 h2 h3, of sampleRpc] before a
  show ?thesis by simp
qed

text \<open>
  C10. A \<^verbatim>\<open>MinipoolCreated\<close> event whose minipool details cannot be fetched: the
  handler returns with both indices as they were, and the watermark still moves to
  the event's block, so every later back-fill query starts one block after it.
\<close>

theorem minipool_details_failure:
  assumes "rocketNodeManager e \<noteq> Address ev"
    and "rocketMinipoolManager e = Address ev"
    and "Topics ev = t0 # t1 # t2 # ts"
    and "t0 = minipoolLaunchedTopic e"
    and "GetMinipoolDetails c (BytesToAddress t1) = Inl x"
  shows "handleEvent c e ev = Inr (e\<lparr>highestBlock := sint (BlockNumber ev)\<rparr>)
         \<and> sint (BlockNumber ev) < backfillStart (e\<lparr>highestBlock := sint (BlockNumber ev)\<rparr>)
         \<and> (\<forall>c' r q. backfillEvents c' (e\<lparr>highestBlock := sint (BlockNumber ev)\<rparr>) = Inr r
               \<and> q \<in> set (filterCalls r)
               \<longrightarrow> FromBlock q = Some (sint (BlockNumber ev) + 1))"
  using assms
  by (auto simp add: handleEvent_def handleMinipoolEvent_def topic_def backfillStart_def
      backfillEvents_def backfillQuery_def Let_def split: sum.splits if_splits)

theorem minipool_details_failure_witness:
  "handleEvent (sampleRpc\<lparr>GetMinipoolDetails := (\<lambda>m. Inl (RpcError 5))\<rparr>) sampleLayer
     \<lparr>Address = 2, Topics = [13, 31, 21], Data = [], BlockNumber = 103\<rparr>
     = Inr (sampleLayer\<lparr>highestBlock := 103\<rparr>)
   \<and> minipoolIndex (sampleLayer\<lparr>highestBlock := 103\<rparr>) 5031 = None
   \<and> 103 < backfillStart (sampleLayer\<lparr>highestBlock := 103\<rparr>)
   \<and> (\<exists>r. backfillEvents (sampleRpc\<lparr>HeaderByNumber := Inr 110\<rparr>)
              (sampleLayer\<lparr>highestBlock := 103\<rparr>) = Inr r
         \<and> map FromBlock (filterCalls r) = [Some 104])"
proof -
  let ?c = "sampleRpc\<lparr>GetMinipoolDetails := (\<lambda>m. Inl (RpcError 5))\<rparr>"
  let ?ev = "\<lparr>Address = 2, Topics = [13, 31, 21], Data = [], BlockNumber = 103\<rparr> :: Log"
  have h1: "rocketNodeManager sampleLayer \<noteq> Address ?ev" by (simp add: sampleLayer_def)
  have h2: "rocketMinipoolManager sampleLayer = Address ?ev" by (simp add: sampleLayer_def)
  have h3: "Topics ?ev = 13 # 31 # 21 # []" by simp
  have h4: "(13 :: hash) = minipoolLaunchedTopic sampleLayer" by (simp add: sampleLayer_def)
  have h5: "GetMinipoolDetails ?c (BytesToAddress 31) = Inl (RpcError 5)" by simp
  have m: "minipoolIndex (sampleLayer\<lparr>highestBlock := 103\<rparr>) 5031 = None"
    by (simp add: sampleLayer_def NewExecutionLayer_def)
  have b: "\<exists>r. backfillEvents (sampleRpc\<lparr>HeaderByNumber := Inr 110\<rparr>)
              (sampleLayer\<lparr>highestBlock := 103\<rparr>) = Inr r
         \<and> map FromBlock (filterCalls r) = [Some 104]"
    by (simp add: backfillEvents_def backfillStart_def backfillQuery_def sampleRpc_def Let_def)
  from minipool_details_failure[OF h1 h2 h3 h4 h5] m b
  show ?thesis by simp
qed

subsection \<open>The watermark\<close>

text \<open>
  A new header never lowers the watermark, and a back-fill that returns leaves it
  at least where it was on entry.
\<close>

lemma header_never_rewinds:
  "ingest c e a b [HeaderMsg h] = Inr e' \<Longrightarrow> highestBlock e \<le> highestBlock e'"
  by (auto split: if_splits)

lemma backfillEvents_highestBlock:
  "backfillEvents c e = Inr r \<Longrightarrow> err r = None \<Longrightarrow> highestBlock e \<le> highestBlock (el r)"
  by (auto simp add: backfillEvents_def backfillStart_def Let_def
      split: sum.splits if_splits)

text \<open>
  C3. The watermark is not monotone: \<^verbatim>\<open>handleEvent\<close> assigns the event's block
  number without comparing. When a header has advanced the watermark to \<open>h\<close> and
  a log of a lower block is taken from the channel afterwards, the watermark drops
  below \<open>h\<close>.
\<close>

theorem late_event_rewinds_highestBlock:
  assumes "highestBlock e < h"
    and "sint (BlockNumber ev) < h"
    and "handleEvent c e ev = Inr e'"
  shows "ingest c e False False [HeaderMsg h] = Inr (e\<lparr>highestBlock := h\<rparr>)
         \<and> ingest c e False False [HeaderMsg h, EventMsg ev] = Inr e'
         \<and> highestBlock e' < h"
proof -
  have step: "handleEvent c (e\<lparr>highestBlock := h\<rparr>) ev = Inr e'"
    using assms(3) by (simp add: handleEvent_highestBlock)
  have hb: "highestBlock e' = sint (BlockNumber ev)"
    using assms(3) by (auto simp add: handleEvent_def split: sum.splits)
  show ?thesis
    using assms(1,2) step hb by simp
qed

theorem late_event_rewinds_highestBlock_witness:
  "highestBlock sampleLayer = 100
   \<and> (\<exists>e'. ingest sampleRpc sampleLayer False False [HeaderMsg 105]
              = Inr (sampleLayer\<lparr>highestBlock := 105\<rparr>)
         \<and> ingest sampleRpc sampleLayer False False
              [HeaderMsg 105,
               EventMsg \<lparr>Address = 1, Topics = [11, 21], Data = [], BlockNumber = 103\<rparr>]
              = Inr e'
         \<and> highestBlock e' = 103 \<and> highestBlock e' < 105)"
proof -
  let ?ev = "\<lparr>Address = 1, Topics = [11, 21], Data = [], BlockNumber = 103\<rparr> :: Log"
  obtain e' where e': "handleEvent sampleRpc sampleLayer ?ev = Inr e'"
    and hb: "highestBlock e' = 103"
    by (simp add: handleEvent_def handleNodeEvent_def topic_def newNodeInfo_def
        sampleLayer_def NewExecutionLayer_def)
  have h1: "highestBlock sampleLayer < 105"
    by (simp add: sampleLayer_def)
  have h2: "sint (BlockNumber ?ev) < 105" by simp
  have h0: "highestBlock sampleLayer = 100" by (simp add: sampleLayer_def)
  from late_event_rewinds_highestBlock[OF h1 h2 e'] hb h0
  show ?thesis by blast
qed

subsection \<open>Initialisation\<close>

lemma loadNodes_ingestorStarted:
  "loadNodes c e nodes = (r, e') \<Longrightarrow> ingestorStarted e' = ingestorStarted e"
proof (induction nodes arbitrary: e)
  case Nil
  then show ?case by simp
next
  case (Cons n ns)
  then show ?case
    by (auto simp add: newNodeInfo_def Let_def split: sum.splits option.splits)
qed

lemma ecEventsConnect_error_not_started:
  assumes "ecEventsConnect c' number e2 = Inr (Some x, e3)"
  shows "ingestorStarted e3 = ingestorStarted e2"
  using assms
  by (auto simp add: ecEventsConnect_def backfillEvents_def Let_def
      split: option.splits sum.splits if_splits)

lemma ecEventsConnect_failures:
  assumes "SubscribeFilterLogs c' = Some x
           \<or> (SubscribeFilterLogs c' = None \<and> SubscribeNewHead c' = Some x)
           \<or> (SubscribeFilterLogs c' = None \<and> SubscribeNewHead c' = None
                \<and> HeaderByNumber c' = Inl x)
           \<or> (SubscribeFilterLogs c' = None \<and> SubscribeNewHead c' = None
                \<and> HeaderByNumber c' = Inr to \<and> number < to \<and> (\<forall>q. FilterLogs c' q = Inl x))"
  shows "\<exists>e3. ecEventsConnect c' number e2 = Inr (Some x, e3)"
  using assms
  by (auto simp add: ecEventsConnect_def backfillEvents_def backfillStart_def Let_def)

text \<open>
  C4. After a successful snapshot, a failure of the log subscription, of the header
  subscription or of the first back-fill makes \<^verbatim>\<open>ecEventsConnect\<close> return an error,
  yet \<^verbatim>\<open>Init\<close> returns no error, with the ingestor not started: the claim that
  \<^verbatim>\<open>Init\<close> fails then does not hold of the code.
\<close>

theorem Init_drops_connect_error:
  assumes "Dial c = None" and "NewRocketPool c = None" and "HeaderByNumber c = Inr number"
    and "GetContract c ''rocketNodeManager'' = Inr nm"
    and "GetContract c ''rocketMinipoolManager'' = Inr mm"
    and "GetContract c ''rocketSmoothingPool'' = Inr sp"
    and "GetNodes c = Inr nodes"
    and "loadNodes c (e\<lparr>rocketNodeManager := nm, rocketMinipoolManager := mm,
                       smoothingPool := sp\<rparr>) nodes = (None, e2)"
    and "\<not> ingestorStarted e"
    and "SubscribeFilterLogs c' = Some x
         \<or> (SubscribeFilterLogs c' = None \<and> SubscribeNewHead c' = Some x)
         \<or> (SubscribeFilterLogs c' = None \<and> SubscribeNewHead c' = None
              \<and> HeaderByNumber c' = Inl x)
         \<or> (SubscribeFilterLogs c' = None \<and> SubscribeNewHead c' = None
              \<and> HeaderByNumber c' = Inr to \<and> number < to \<and> (\<forall>q. FilterLogs c' q = Inl x))"
  shows "\<exists>e3. ecEventsConnect c' number e2 = Inr (Some x, e3)
              \<and> Init c c' e = Inr (None, e3)
              \<and> \<not> ingestorStarted e3"
proof -
  from assms(10) obtain e3 where e3: "ecEventsConnect c' number e2 = Inr (Some x, e3)"
    using ecEventsConnect_failures by blast
  from assms(8,9) have "\<not> ingestorStarted e2"
    by (simp add: loadNodes_ingestorStarted)
  with e3 have "\<not> ingestorStarted e3"
    by (simp add: ecEventsConnect_error_not_started)
  moreover from assms(1-8) e3 have "Init c c' e = Inr (None, e3)"
    by (simp add: Init_def)
  ultimately show ?thesis using e3 by blast
qed

theorem Init_drops_connect_error_witness:
  "SubscribeFilterLogs (sampleRpc\<lparr>SubscribeFilterLogs := Some (RpcError 1)\<rparr>) = Some (RpcError 1)
   \<and> (\<exists>e3. Init (sampleRpc\<lparr>GetNodes := Inr [21], GetNodeMinipools := (\<lambda>n. Inr [5031])\<rparr>)
                 (sampleRpc\<lparr>SubscribeFilterLogs := Some (RpcError 1)\<rparr>) NewExecutionLayer
              = Inr (None, e3)
         \<and> \<not> ingestorStarted e3)"
proof -
  let ?c = "sampleRpc\<lparr>GetNodes := Inr [21], GetNodeMinipools := (\<lambda>n. Inr [5031])\<rparr>"
  let ?c' = "sampleRpc\<lparr>SubscribeFilterLogs := Some (RpcError 1)\<rparr>"
  let ?e1 = "NewExecutionLayer\<lparr>rocketNodeManager := 1, rocketMinipoolManager := 2,
                               smoothingPool := 3\<rparr>"
  have h1: "Dial ?c = None" and h2: "NewRocketPool ?c = None"
    and h3: "HeaderByNumber ?c = Inr 100"
    and h4: "GetContract ?c ''rocketNodeManager'' = Inr 1"
    and h5: "GetContract ?c ''rocketMinipoolManager'' = Inr 2"
    and h6: "GetContract ?c ''rocketSmoothingPool'' = Inr 3"
    and h7: "GetNodes ?c = Inr [21]"
    by (simp_all add: sampleRpc_def)
  obtain e2 where h8: "loadNodes ?c ?e1 [21] = (None, e2)"
    by (simp add: sampleRpc_def newNodeInfo_def Let_def)
  have h9: "\<not> ingestorStarted NewExecutionLayer"
    by (simp add: NewExecutionLayer_def)
  have h10: "SubscribeFilterLogs ?c' = Some (RpcError 1)
         \<or> (SubscribeFilterLogs ?c' = None \<and> SubscribeNewHead ?c' = Some (RpcError 1))
         \<or> (SubscribeFilterLogs ?c' = None \<and> SubscribeNewHead ?c' = None
              \<and> HeaderByNumber ?c' = Inl (RpcError 1))
         \<or> (SubscribeFilterLogs ?c' = None \<and> SubscribeNewHead ?c' = None
              \<and> HeaderByNumber ?c' = Inr 0 \<and> 100 < (0::int)
              \<and> (\<forall>q. FilterLogs ?c' q = Inl (RpcError 1)))"
    by simp
  from Init_drops_connect_error[OF h1 h2 h3 h4 h5 h6 h7 h8 h9 h10]
  show ?thesis by auto
qed

subsection \<open>Back-fill\<close>

text \<open>
  C6. With \<open>start = highestBlock + 1\<close> and \<open>stop\<close> the current head: when
  \<open>stop < start\<close> the back-fill makes no log query, leaves the state as it is and
  returns no error; when \<open>start \<le> stop\<close> it makes one query for the three topics
  on the two contracts over \<open>[start, stop]\<close>, handles the logs as the live loop
  would, sets the watermark to \<open>max highestBlock stop\<close>, and reports a block
  delta of 1 when \<open>start = stop\<close>.
\<close>

theorem backfillEvents_contract:
  assumes "HeaderByNumber c = Inr to"
  shows "backfillStart e = highestBlock e + 1
    \<and> (to < backfillStart e \<longrightarrow>
          backfillEvents c e = Inr \<lparr>err = None, filterCalls = [], debug = None, el = e\<rparr>)
    \<and> (backfillStart e \<le> to
          \<and> FilterLogs c \<lparr>Addresses = [rocketMinipoolManager e, rocketNodeManager e],
                          FromBlock = Some (backfillStart e),
                          ToBlock = Some to,
                          QueryTopics = [[nodeRegisteredTopic e,
                                          smoothingPoolStatusChangedTopic e,
                                          minipoolLaunchedTopic e]]\<rparr> = Inr logs
          \<and> ingest c e False False (map EventMsg logs) = Inr e1 \<longrightarrow>
          (\<exists>d. backfillEvents c e =
                 Inr \<lparr>err = None,
                      filterCalls = [\<lparr>Addresses = [rocketMinipoolManager e, rocketNodeManager e],
                                      FromBlock = Some (backfillStart e),
                                      ToBlock = Some to,
                                      QueryTopics = [[nodeRegisteredTopic e,
                                                      smoothingPoolStatusChangedTopic e,
                                                      minipoolLaunchedTopic e]]\<rparr>],
                      debug = Some d,
                      el = e1\<lparr>highestBlock := max (highestBlock e) to\<rparr>\<rparr>
               \<and> events d = length logs
               \<and> (if backfillStart e = to then blocks d = 1
                    else blocks d = word_of_int (to - backfillStart e + 1))))"
proof -
  have m: "backfillStart e \<le> to \<Longrightarrow> max (highestBlock e) to = to"
    by (simp add: backfillStart_def)
  show ?thesis
    using assms m
    by (auto simp add: backfillEvents_def backfillQuery_def Let_def ingest_events
        simp add: backfillStart_def)
qed

theorem backfillEvents_contract_witness:
  "backfillEvents sampleRpc sampleLayer
     = Inr \<lparr>err = None, filterCalls = [], debug = None, el = sampleLayer\<rparr>
   \<and> (\<exists>d e1. backfillEvents
                 (sampleRpc\<lparr>HeaderByNumber := Inr 101,
                            FilterLogs := (\<lambda>q. Inr [\<lparr>Address = 1, Topics = [11, 21], Data = [],
                                                     BlockNumber = 101\<rparr>])\<rparr>)
                 sampleLayer
               = Inr \<lparr>err = None,
                      filterCalls = [\<lparr>Addresses = [2, 1], FromBlock = Some 101,
                                      ToBlock = Some 101, QueryTopics = [[11, 12, 13]]\<rparr>],
                      debug = Some d,
                      el = e1\<lparr>highestBlock := 101\<rparr>\<rparr>
         \<and> events d = 1 \<and> blocks d = 1
         \<and> NodeIndex e1 21 = Some \<lparr>inSmoothingPool = False, feeDistributor = 0\<rparr>)"
proof -
  let ?ev = "\<lparr>Address = 1, Topics = [11, 21], Data = [], BlockNumber = 101\<rparr> :: Log"
  let ?c = "sampleRpc\<lparr>HeaderByNumber := Inr 101, FilterLogs := (\<lambda>q. Inr [?ev])\<rparr>"
  have st: "backfillStart sampleLayer = 101"
    by (simp add: backfillStart_def sampleLayer_def)
  have fields: "rocketMinipoolManager sampleLayer = 2" "rocketNodeManager sampleLayer = 1"
    "nodeRegisteredTopic sampleLayer = 11" "smoothingPoolStatusChangedTopic sampleLayer = 12"
    "minipoolLaunchedTopic sampleLayer = 13" "highestBlock sampleLayer = 100"
    by (simp_all add: sampleLayer_def)
  have a0: "HeaderByNumber sampleRpc = Inr 100" by (simp add: sampleRpc_def)
  have a: "backfillEvents sampleRpc sampleLayer
     = Inr \<lparr>err = None, filterCalls = [], debug = None, el = sampleLayer\<rparr>"
    using backfillEvents_contract[OF a0, of sampleLayer] st by simp
  have b0: "HeaderByNumber ?c = Inr 101" by simp
  obtain e1 where e1: "ingest ?c sampleLayer False False (map EventMsg [?ev]) = Inr e1"
    and n: "NodeIndex e1 21 = Some \<lparr>inSmoothingPool = False, feeDistributor = 0\<rparr>"
    by (simp add: handleEvent_def handleNodeEvent_def topic_def newNodeInfo_def
        sampleLayer_def NewExecutionLayer_def NodeIndex_def BytesToAddress_def)
  have q: "FilterLogs ?c \<lparr>Addresses = [rocketMinipoolManager sampleLayer,
                                        rocketNodeManager sampleLayer],
                          FromBlock = Some (backfillStart sampleLayer),
                          ToBlock = Some 101,
                          QueryTopics = [[nodeRegisteredTopic sampleLayer,
                                          smoothingPoolStatusChangedTopic sampleLayer,
                                          minipoolLaunchedTopic sampleLayer]]\<rparr> = Inr [?ev]"
    by simp
  have le: "backfillStart sampleLayer \<le> 101" using st by simp
  from backfillEvents_contract[OF b0, of sampleLayer "[?ev]" e1] le q e1
  obtain d where
    "backfillEvents ?c sampleLayer =
       Inr \<lparr>err = None,
            filterCalls = [\<lparr>Addresses = [rocketMinipoolManager sampleLayer,
                                          rocketNodeManager sampleLayer],
                            FromBlock = Some (backfillStart sampleLayer), ToBlock = Some 101,
                            QueryTopics = [[nodeRegisteredTopic sampleLayer,
                                            smoothingPoolStatusChangedTopic sampleLayer,
                                            minipoolLaunchedTopic sampleLayer]]\<rparr>],
            debug = Some d,
            el = e1\<lparr>highestBlock := max (highestBlock sampleLayer) 101\<rparr>\<rparr>"
    "events d = length [?ev]"
    "if backfillStart sampleLayer = 101 then blocks d = 1
     else blocks d = word_of_int (101 - backfillStart sampleLayer + 1)"
    by blast
  with st fields n have "\<exists>d e1. backfillEvents ?c sampleLayer
               = Inr \<lparr>err = None,
                      filterCalls = [\<lparr>Addresses = [2, 1], FromBlock = Some 101,
                                      ToBlock = Some 101, QueryTopics = [[11, 12, 13]]\<rparr>],
                      debug = Some d,
                      el = e1\<lparr>highestBlock := 101\<rparr>\<rparr>
         \<and> events d = 1 \<and> blocks d = 1
         \<and> NodeIndex e1 21 = Some \<lparr>inSmoothingPool = False, feeDistributor = 0\<rparr>"
    by (intro exI[of _ d] exI[of _ e1]) simp
  with a show ?thesis by blast
qed

text \<open>
  C7. Replaying a prefix of the events through the back-fill and handling the
  rest in the live loop ends with the same minipool index and node index (or the
  same panic) as handling all of them in the live loop.
\<close>

theorem backfill_then_live_eq_live:
  assumes "HeaderByNumber c = Inr to"
    and "backfillStart e \<le> to"
    and "FilterLogs c (backfillQuery e (backfillStart e) to) = Inr pre"
  shows "(case backfillEvents c e of
            Inl p \<Rightarrow> Inl p
          | Inr r \<Rightarrow> map_sum id (\<lambda>x. (minipoolIndex x, NodeIndex x))
                       (ingest c (el r) False False (map EventMsg suf)))
         = map_sum id (\<lambda>x. (minipoolIndex x, NodeIndex x))
             (ingest c e False False (map EventMsg (pre @ suf)))"
proof -
  have live: "ingest c e False False (map EventMsg (pre @ suf)) = replay c e (pre @ suf)"
    by (rule ingest_events)
  show ?thesis
  proof (cases "replay c e pre")
    case (Inl p)
    with assms show ?thesis
      unfolding live by (simp add: backfillEvents_def Let_def replay_append)
  next
    case (Inr e1)
    with assms show ?thesis
      unfolding live
      by (simp add: backfillEvents_def Let_def ingest_events replay_append
          replay_indices_highestBlock)
  qed
qed

theorem backfill_then_live_eq_live_witness:
  "HeaderByNumber (sampleRpc\<lparr>HeaderByNumber := Inr 102,
                             FilterLogs := (\<lambda>q. Inr [\<lparr>Address = 1, Topics = [11, 21],
                                                      Data = [], BlockNumber = 101\<rparr>])\<rparr>)
     = Inr 102
   \<and> backfillStart sampleLayer \<le> 102
   \<and> (case backfillEvents
             (sampleRpc\<lparr>HeaderByNumber := Inr 102,
                        FilterLogs := (\<lambda>q. Inr [\<lparr>Address = 1, Topics = [11, 21],
                                                 Data = [], BlockNumber = 101\<rparr>])\<rparr>)
             sampleLayer of
         Inl p \<Rightarrow> Inl p
       | Inr r \<Rightarrow>
           map_sum id (\<lambda>x. (minipoolIndex x, NodeIndex x))
             (ingest
                (sampleRpc\<lparr>HeaderByNumber := Inr 102,
                           FilterLogs := (\<lambda>q. Inr [\<lparr>Address = 1, Topics = [11, 21],
                                                    Data = [], BlockNumber = 101\<rparr>])\<rparr>)
                (el r) False False
                (map EventMsg [\<lparr>Address = 2, Topics = [13, 31, 21], Data = [],
                                BlockNumber = 103\<rparr>])))
     = map_sum id (\<lambda>x. (minipoolIndex x, NodeIndex x))
         (ingest
            (sampleRpc\<lparr>HeaderByNumber := Inr 102,
                       FilterLogs := (\<lambda>q. Inr [\<lparr>Address = 1, Topics = [11, 21],
                                                Data = [], BlockNumber = 101\<rparr>])\<rparr>)
            sampleLayer False False
            (map EventMsg ([\<lparr>Address = 1, Topics = [11, 21], Data = [], BlockNumber = 101\<rparr>]
                           @ [\<lparr>Address = 2, Topics = [13, 31, 21], Data = [],
                                BlockNumber = 103\<rparr>])))
   \<and> (\<exists>e'. ingest
              (sampleRpc\<lparr>HeaderByNumber := Inr 102,
                         FilterLogs := (\<lambda>q. Inr [\<lparr>Address = 1, Topics = [11, 21],
                                                  Data = [], BlockNumber = 101\<rparr>])\<rparr>)
              sampleLayer False False
              (map EventMsg ([\<lparr>Address = 1, Topics = [11, 21], Data = [], BlockNumber = 101\<rparr>]
                             @ [\<lparr>Address = 2, Topics = [13, 31, 21], Data = [],
                                  BlockNumber = 103\<rparr>])) = Inr e'
         \<and> minipoolIndex e' 5031 = Some 21
         \<and> NodeIndex e' 21 = Some \<lparr>inSmoothingPool = False, feeDistributor = 0\<rparr>)"
proof -
  let ?pre = "[\<lparr>Address = 1, Topics = [11, 21], Data = [], BlockNumber = 101\<rparr> :: Log]"
  let ?suf = "[\<lparr>Address = 2, Topics = [13, 31, 21], Data = [], BlockNumber = 103\<rparr> :: Log]"
  let ?c = "sampleRpc\<lparr>HeaderByNumber := Inr 102, FilterLogs := (\<lambda>q. Inr ?pre)\<rparr>"
  have h1: "HeaderByNumber ?c = Inr 102" by simp
  have h2: "backfillStart sampleLayer \<le> 102"
    by (simp add: backfillStart_def sampleLayer_def)
  have h3: "FilterLogs ?c (backfillQuery sampleLayer (backfillStart sampleLayer) 102) = Inr ?pre"
    by simp
  have run: "\<exists>e'. ingest ?c sampleLayer False False (map EventMsg (?pre @ ?suf)) = Inr e'
         \<and> minipoolIndex e' 5031 = Some 21
         \<and> NodeIndex e' 21 = Some \<lparr>inSmoothingPool = False, feeDistributor = 0\<rparr>"
    by (simp add: handleEvent_def handleNodeEvent_def handleMinipoolEvent_def topic_def
        newNodeInfo_def sampleLayer_def sampleRpc_def NewExecutionLayer_def NodeIndex_def
        BytesToAddress_def)
  from backfill_then_live_eq_live[OF h1 h2 h3, of ?suf] h1 h2 run
  show ?thesis by blast
qed

subsection \<open>Reconnector\<close>

lemma reconnectLoop_skip:
  assumes "k \<le> i" and "i \<le> reconnectRetries"
    and "\<forall>j. k \<le> j \<and> j < i \<longrightarrow> SubscribeFilterLogs (w j) \<noteq> None"
  shows "reconnectLoop w e k sl = reconnectLoop w e i (sl @ map (\<lambda>j. j * 5) [k..<i])"
  using assms
proof (induction i)
  case 0
  then show ?case by simp
next
  case (Suc i)
  show ?case
  proof (cases "k = Suc i")
    case True
    then show ?thesis by simp
  next
    case False
    with Suc.prems have ki: "k \<le> i" and ir: "i < reconnectRetries"
      and fails: "SubscribeFilterLogs (w i) \<noteq> None" by auto
    from Suc.IH ki ir Suc.prems(3)
    have "reconnectLoop w e k sl = reconnectLoop w e i (sl @ map (\<lambda>j. j * 5) [k..<i])"
      by simp
    also from ir fails
    have "\<dots> = reconnectLoop w e (Suc i) ((sl @ map (\<lambda>j. j * 5) [k..<i]) @ [i * 5])"
      by (subst reconnectLoop.simps) (auto split: option.splits)
    also from ki have "(sl @ map (\<lambda>j. j * 5) [k..<i]) @ [i * 5] = sl @ map (\<lambda>j. j * 5) [k..<Suc i]"
      by simp
    finally show ?thesis .
  qed
qed

lemma reconnectLoop_attempts:
  "i \<le> reconnectRetries \<Longrightarrow> attempts (reconnectLoop w e i sl) \<le> reconnectRetries"
proof (induction w e i sl rule: reconnectLoop.induct)
  case (1 w e i sl)
  then show ?case
    by (subst reconnectLoop.simps) (auto split: option.splits sum.splits)
qed

lemma reconnectLoop_sleeps:
  "\<exists>k. i \<le> k \<and> sleeps (reconnectLoop w e i sl) = sl @ map (\<lambda>j. j * 5) [i..<k]
       \<and> k \<le> attempts (reconnectLoop w e i sl)"
proof (induction w e i sl rule: reconnectLoop.induct)
  case (1 w e i sl)
  show ?case
  proof (cases "i < reconnectRetries \<and> SubscribeFilterLogs (w i) \<noteq> None")
    case True
    then obtain x where x: "SubscribeFilterLogs (w i) = Some x" by auto
    with True "1.IH"
    obtain k where k: "Suc i \<le> k"
      "sleeps (reconnectLoop w e (Suc i) (sl @ [i * 5]))
        = (sl @ [i * 5]) @ map (\<lambda>j. j * 5) [Suc i..<k]"
      "k \<le> attempts (reconnectLoop w e (Suc i) (sl @ [i * 5]))"
      by blast
    have unfold: "reconnectLoop w e i sl = reconnectLoop w e (Suc i) (sl @ [i * 5])"
      using True x by (subst reconnectLoop.simps) simp
    from k(1) have "[i..<k] = i # [Suc i..<k]" by (simp add: upt_conv_Cons)
    with k unfold show ?thesis by (intro exI[of _ k]) simp
  next
    case False
    then show ?thesis
      by (subst (1 2) reconnectLoop.simps) (auto split: option.splits sum.splits intro: exI[of _ i])
  qed
qed

text \<open>
  C5, as claimed, fails: when the log subscription is re-established and the
  header subscription is not, the loop is left at once and the process panics,
  although every later attempt would have succeeded.
\<close>

theorem header_resubscribe_failure_counterexample:
  "SubscribeFilterLogs sampleRpc = None
   \<and> SubscribeNewHead (sampleRpc\<lparr>SubscribeNewHead := Some (RpcError 2)\<rparr>) = Some (RpcError 2)
   \<and> SubscribeNewHead sampleRpc = None
   \<and> handleSubscriptionError
        (\<lambda>i. if i = 0 then sampleRpc\<lparr>SubscribeNewHead := Some (RpcError 2)\<rparr> else sampleRpc)
        sampleLayer
      = \<lparr>sleeps = [], attempts = 1, outcome = Inl CouldntReconnect\<rparr>"
  by (simp add: handleSubscriptionError_def reconnectLoop.simps reconnectRetries_def
      sampleRpc_def sampleLayer_def NewExecutionLayer_def)

text \<open>
  C5, amended. If the log subscription succeeds at an attempt and the header
  subscription then fails, no further attempt is made: the reconnector panics with
  the message of an exhausted reconnection, having slept only after the earlier
  failed attempts.
\<close>

theorem header_resubscribe_failure_ends_retries:
  assumes "\<not> shutdown e" and "i < reconnectRetries"
    and "\<forall>j. j < i \<longrightarrow> SubscribeFilterLogs (w j) \<noteq> None"
    and "SubscribeFilterLogs (w i) = None"
    and "SubscribeNewHead (w i) = Some x"
  shows "handleSubscriptionError w e =
           \<lparr>sleeps = map (\<lambda>j. j * 5) [0..<i], attempts = Suc i,
            outcome = Inl CouldntReconnect\<rparr>"
proof -
  from assms(2,3)
  have "reconnectLoop w e 0 [] = reconnectLoop w e i ([] @ map (\<lambda>j. j * 5) [0..<i])"
    by (intro reconnectLoop_skip) auto
  also from assms(2,4,5)
  have "\<dots> = \<lparr>sleeps = map (\<lambda>j. j * 5) [0..<i], attempts = Suc i,
                outcome = Inl CouldntReconnect\<rparr>"
    by (subst reconnectLoop.simps) simp
  finally show ?thesis
    using assms(1) by (simp add: handleSubscriptionError_def)
qed

theorem header_resubscribe_failure_ends_retries_witness:
  "handleSubscriptionError
     (\<lambda>i. if i < 2 then sampleRpc\<lparr>SubscribeFilterLogs := Some (RpcError 1)\<rparr>
           else sampleRpc\<lparr>SubscribeNewHead := Some (RpcError 2)\<rparr>)
     sampleLayer
   = \<lparr>sleeps = [0, 5], attempts = 3, outcome = Inl CouldntReconnect\<rparr>"
proof -
  let ?w = "\<lambda>i::nat. if i < 2 then sampleRpc\<lparr>SubscribeFilterLogs := Some (RpcError 1)\<rparr>
                     else sampleRpc\<lparr>SubscribeNewHead := Some (RpcError 2)\<rparr>"
  have h1: "\<not> shutdown sampleLayer"
    by (simp add: sampleLayer_def NewExecutionLayer_def)
  have h2: "2 < reconnectRetries" by (simp add: reconnectRetries_def)
  have h3: "\<forall>j. j < 2 \<longrightarrow> SubscribeFilterLogs (?w j) \<noteq> None" by simp
  have h4: "SubscribeFilterLogs (?w 2) = None" by (simp add: sampleRpc_def)
  have h5: "SubscribeNewHead (?w 2) = Some (RpcError 2)" by simp
  have l: "map (\<lambda>j. j * 5) [0..<2] = [0, 5::nat]" by (simp add: upt_rec)
  from header_resubscribe_failure_ends_retries[OF h1 h2 h3 h4 h5] l
  show ?thesis by (simp add: numeral_2_eq_2 numeral_3_eq_3)
qed

text \<open>
  C8, as claimed, fails: when the first attempt fails and the second succeeds, the
  only sleep of the invocation, the one between the two attempts, is of 0 seconds,
  not of 5.
\<close>

theorem reconnect_delay_counterexample:
  "SubscribeFilterLogs (sampleRpc\<lparr>SubscribeFilterLogs := Some (RpcError 1)\<rparr>) \<noteq> None
   \<and> handleSubscriptionError
        (\<lambda>i. if i = 0 then sampleRpc\<lparr>SubscribeFilterLogs := Some (RpcError 1)\<rparr>
              else sampleRpc)
        sampleLayer
      = \<lparr>sleeps = [0], attempts = 2,
         outcome = Inr (sampleLayer\<lparr>ethclientShutdownCb := True\<rparr>)\<rparr>
   \<and> sleeps (handleSubscriptionError
               (\<lambda>i. if i = 0 then sampleRpc\<lparr>SubscribeFilterLogs := Some (RpcError 1)\<rparr>
                     else sampleRpc)
               sampleLayer)
       \<noteq> [5 * 1]"
  by (simp add: handleSubscriptionError_def reconnectLoop.simps reconnectRetries_def
      backfillEvents_def backfillStart_def sampleRpc_def sampleLayer_def NewExecutionLayer_def)

text \<open>
  C8, amended. An invocation makes at most 10 attempts, and none once shut down.
  The first attempt is immediate, and the sleep after failed attempt \<open>k\<close> (counting
  from 1) is \<open>5 * (k - 1)\<close> seconds: when the log subscription first succeeds at
  loop index \<open>i\<close>, that is at attempt \<open>i + 1\<close>, exactly the \<open>i\<close> sleeps
  \<open>0, 5, ..., 5 * (i - 1)\<close> have been made, one after each failed attempt, and
  none follows. If all 10 log subscriptions fail the reconnector has slept
  \<open>0, 5, ..., 45\<close> and panics after 10 attempts; if the back-fill after a
  successful reconnection fails it panics too.
\<close>

theorem reconnect_attempts_and_delays:
  "reconnectRetries = 10
   \<and> attempts (handleSubscriptionError w e) \<le> reconnectRetries
   \<and> (shutdown e \<longrightarrow>
        handleSubscriptionError w e = \<lparr>sleeps = [], attempts = 0, outcome = Inr e\<rparr>)
   \<and> (\<not> shutdown e \<and> (\<forall>i. i < reconnectRetries \<longrightarrow> SubscribeFilterLogs (w i) \<noteq> None) \<longrightarrow>
        handleSubscriptionError w e =
          \<lparr>sleeps = map (\<lambda>j. 5 * j) [0..<10], attempts = 10,
           outcome = Inl CouldntReconnect\<rparr>)
   \<and> (\<forall>i. \<not> shutdown e \<and> i < reconnectRetries
          \<and> (\<forall>j. j < i \<longrightarrow> SubscribeFilterLogs (w j) \<noteq> None)
          \<and> SubscribeFilterLogs (w i) = None \<longrightarrow>
          sleeps (handleSubscriptionError w e) = map (\<lambda>j. 5 * j) [0..<i]
          \<and> attempts (handleSubscriptionError w e) = Suc i
          \<and> outcome (handleSubscriptionError w e) =
              (case SubscribeNewHead (w i) of
                 Some x \<Rightarrow> Inl CouldntReconnect
               | None \<Rightarrow>
                   (case backfillEvents (w i) (e\<lparr>ethclientShutdownCb := True\<rparr>) of
                      Inl p \<Rightarrow> Inl p
                    | Inr r \<Rightarrow>
                        (case err r of
                           Some x \<Rightarrow> Inl CouldntBackfill
                         | None \<Rightarrow> Inr (el r)))))
   \<and> (\<forall>i x r. \<not> shutdown e \<and> i < reconnectRetries
          \<and> (\<forall>j. j < i \<longrightarrow> SubscribeFilterLogs (w j) \<noteq> None)
          \<and> SubscribeFilterLogs (w i) = None \<and> SubscribeNewHead (w i) = None
          \<and> backfillEvents (w i) (e\<lparr>ethclientShutdownCb := True\<rparr>) = Inr r
          \<and> err r = Some x \<longrightarrow>
          handleSubscriptionError w e =
            \<lparr>sleeps = map (\<lambda>j. 5 * j) [0..<i], attempts = Suc i,
             outcome = Inl CouldntBackfill\<rparr>)"
proof -
  have comm: "\<And>n. map (\<lambda>j. j * 5) [0..<n] = map (\<lambda>j. 5 * j) [0..<n::nat]"
    by (simp add: mult.commute)
  have first: "reconnectLoop w e 0 [] =
        \<lparr>sleeps = map (\<lambda>j. 5 * j) [0..<i], attempts = Suc i,
         outcome =
           (case SubscribeNewHead (w i) of
              Some x \<Rightarrow> Inl CouldntReconnect
            | None \<Rightarrow>
                (case backfillEvents (w i) (e\<lparr>ethclientShutdownCb := True\<rparr>) of
                   Inl p \<Rightarrow> Inl p
                 | Inr r \<Rightarrow>
                     (case err r of
                        Some x \<Rightarrow> Inl CouldntBackfill
                      | None \<Rightarrow> Inr (el r))))\<rparr>"
    if a: "i < reconnectRetries" "\<forall>j. j < i \<longrightarrow> SubscribeFilterLogs (w j) \<noteq> None"
      "SubscribeFilterLogs (w i) = None" for i
  proof -
    from a(1,2)
    have "reconnectLoop w e 0 [] = reconnectLoop w e i ([] @ map (\<lambda>j. j * 5) [0..<i])"
      by (intro reconnectLoop_skip) auto
    also from a(1,3) have "\<dots> =
        \<lparr>sleeps = map (\<lambda>j. j * 5) [0..<i], attempts = Suc i,
         outcome =
           (case SubscribeNewHead (w i) of
              Some x \<Rightarrow> Inl CouldntReconnect
            | None \<Rightarrow>
                (case backfillEvents (w i) (e\<lparr>ethclientShutdownCb := True\<rparr>) of
                   Inl p \<Rightarrow> Inl p
                 | Inr r \<Rightarrow>
                     (case err r of
                        Some x \<Rightarrow> Inl CouldntBackfill
                      | None \<Rightarrow> Inr (el r))))\<rparr>"
      by (subst reconnectLoop.simps) (simp split: option.splits sum.splits)
    finally show ?thesis by (simp only: comm)
  qed
  have c1: "reconnectRetries = 10" by (simp add: reconnectRetries_def)
  have c2: "attempts (handleSubscriptionError w e) \<le> reconnectRetries"
    using reconnectLoop_attempts[of 0 w e "[]"] by (simp add: handleSubscriptionError_def)
  have c3: "shutdown e \<longrightarrow>
        handleSubscriptionError w e = \<lparr>sleeps = [], attempts = 0, outcome = Inr e\<rparr>"
    by (simp add: handleSubscriptionError_def)
  have c4: "\<not> shutdown e \<and> (\<forall>i. i < reconnectRetries \<longrightarrow> SubscribeFilterLogs (w i) \<noteq> None) \<longrightarrow>
        handleSubscriptionError w e =
          \<lparr>sleeps = map (\<lambda>j. 5 * j) [0..<10], attempts = 10,
           outcome = Inl CouldntReconnect\<rparr>"
  proof
    assume a: "\<not> shutdown e \<and> (\<forall>i. i < reconnectRetries \<longrightarrow> SubscribeFilterLogs (w i) \<noteq> None)"
    then have "reconnectLoop w e 0 []
        = reconnectLoop w e reconnectRetries ([] @ map (\<lambda>j. j * 5) [0..<reconnectRetries])"
      by (intro reconnectLoop_skip) auto
    also have "\<dots> = \<lparr>sleeps = map (\<lambda>j. j * 5) [0..<reconnectRetries],
        attempts = reconnectRetries, outcome = Inl CouldntReconnect\<rparr>"
      by (subst reconnectLoop.simps) simp
    finally have "reconnectLoop w e 0 [] = \<lparr>sleeps = map (\<lambda>j. 5 * j) [0..<10],
        attempts = 10, outcome = Inl CouldntReconnect\<rparr>"
      by (simp only: comm c1)
    with a show "handleSubscriptionError w e =
          \<lparr>sleeps = map (\<lambda>j. 5 * j) [0..<10], attempts = 10,
           outcome = Inl CouldntReconnect\<rparr>"
      by (simp add: handleSubscriptionError_def)
  qed
  have c5: "\<forall>i. \<not> shutdown e \<and> i < reconnectRetries
          \<and> (\<forall>j. j < i \<longrightarrow> SubscribeFilterLogs (w j) \<noteq> None)
          \<and> SubscribeFilterLogs (w i) = None \<longrightarrow>
          sleeps (handleSubscriptionError w e) = map (\<lambda>j. 5 * j) [0..<i]
          \<and> attempts (handleSubscriptionError w e) = Suc i
          \<and> outcome (handleSubscriptionError w e) =
              (case SubscribeNewHead (w i) of
                 Some x \<Rightarrow> Inl CouldntReconnect
               | None \<Rightarrow>
                   (case backfillEvents (w i) (e\<lparr>ethclientShutdownCb := True\<rparr>) of
                      Inl p \<Rightarrow> Inl p
                    | Inr r \<Rightarrow>
                        (case err r of
                           Some x \<Rightarrow> Inl CouldntBackfill
                         | None \<Rightarrow> Inr (el r))))"
  proof (intro allI impI)
    fix i
    assume a: "\<not> shutdown e \<and> i < reconnectRetries
          \<and> (\<forall>j. j < i \<longrightarrow> SubscribeFilterLogs (w j) \<noteq> None)
          \<and> SubscribeFilterLogs (w i) = None"
    then have h: "handleSubscriptionError w e = reconnectLoop w e 0 []"
      by (simp add: handleSubscriptionError_def)
    from a have "i < reconnectRetries" "\<forall>j. j < i \<longrightarrow> SubscribeFilterLogs (w j) \<noteq> None"
      "SubscribeFilterLogs (w i) = None" by blast+
    from first[OF this] show "sleeps (handleSubscriptionError w e) = map (\<lambda>j. 5 * j) [0..<i]
          \<and> attempts (handleSubscriptionError w e) = Suc i
          \<and> outcome (handleSubscriptionError w e) =
              (case SubscribeNewHead (w i) of
                 Some x \<Rightarrow> Inl CouldntReconnect
               | None \<Rightarrow>
                   (case backfillEvents (w i) (e\<lparr>ethclientShutdownCb := True\<rparr>) of
                      Inl p \<Rightarrow> Inl p
                    | Inr r \<Rightarrow>
                        (case err r of
                           Some x \<Rightarrow> Inl CouldntBackfill
                         | None \<Rightarrow> Inr (el r))))"
      unfolding h by simp
  qed
  have c6: "\<forall>i x r. \<not> shutdown e \<and> i < reconnectRetries
          \<and> (\<forall>j. j < i \<longrightarrow> SubscribeFilterLogs (w j) \<noteq> None)
          \<and> SubscribeFilterLogs (w i) = None \<and> SubscribeNewHead (w i) = None
          \<and> backfillEvents (w i) (e\<lparr>ethclientShutdownCb := True\<rparr>) = Inr r
          \<and> err r = Some x \<longrightarrow>
          handleSubscriptionError w e =
            \<lparr>sleeps = map (\<lambda>j. 5 * j) [0..<i], attempts = Suc i,
             outcome = Inl CouldntBackfill\<rparr>"
  proof (intro allI impI)
    fix i x r
    assume a: "\<not> shutdown e \<and> i < reconnectRetries
          \<and> (\<forall>j. j < i \<longrightarrow> SubscribeFilterLogs (w j) \<noteq> None)
          \<and> SubscribeFilterLogs (w i) = None \<and> SubscribeNewHead (w i) = None
          \<and> backfillEvents (w i) (e\<lparr>ethclientShutdownCb := True\<rparr>) = Inr r
          \<and> err r = Some x"
    then have h: "handleSubscriptionError w e = reconnectLoop w e 0 []"
      by (simp add: handleSubscriptionError_def)
    from a have "i < reconnectRetries" "\<forall>j. j < i \<longrightarrow> SubscribeFilterLogs (w j) \<noteq> None"
      "SubscribeFilterLogs (w i) = None" by blast+
    from first[OF this] a show "handleSubscriptionError w e =
            \<lparr>sleeps = map (\<lambda>j. 5 * j) [0..<i], attempts = Suc i,
             outcome = Inl CouldntBackfill\<rparr>"
      unfolding h by simp
  qed
  from c1 c2 c3 c4 c5 c6 show ?thesis by blast
qed

theorem reconnect_attempts_and_delays_witness:
  "handleSubscriptionError (\<lambda>i. sampleRpc\<lparr>SubscribeFilterLogs := Some (RpcError 1)\<rparr>) sampleLayer
     = \<lparr>sleeps = [0, 5, 10, 15, 20, 25, 30, 35, 40, 45], attempts = 10,
        outcome = Inl CouldntReconnect\<rparr>
   \<and> handleSubscriptionError
        (\<lambda>i. if i < 2 then sampleRpc\<lparr>SubscribeFilterLogs := Some (RpcError 1)\<rparr>
              else sampleRpc\<lparr>HeaderByNumber := Inl (RpcError 3)\<rparr>) sampleLayer
       = \<lparr>sleeps = [0, 5], attempts = 3, outcome = Inl CouldntBackfill\<rparr>
   \<and> handleSubscriptionError
        (\<lambda>i. if i < 1 then sampleRpc\<lparr>SubscribeFilterLogs := Some (RpcError 1)\<rparr>
              else sampleRpc) sampleLayer
       = \<lparr>sleeps = [0], attempts = 2,
          outcome = Inr (sampleLayer\<lparr>ethclientShutdownCb := True\<rparr>)\<rparr>"
proof -
  let ?w1 = "\<lambda>i::nat. sampleRpc\<lparr>SubscribeFilterLogs := Some (RpcError 1)\<rparr>"
  let ?w2 = "\<lambda>i::nat. if i < 2 then sampleRpc\<lparr>SubscribeFilterLogs := Some (RpcError 1)\<rparr>
                      else sampleRpc\<lparr>HeaderByNumber := Inl (RpcError 3)\<rparr>"
  let ?w3 = "\<lambda>i::nat. if i < 1 then sampleRpc\<lparr>SubscribeFilterLogs := Some (RpcError 1)\<rparr>
                      else sampleRpc"
  have sh: "\<not> shutdown sampleLayer"
    by (simp add: sampleLayer_def NewExecutionLayer_def)
  have allfail: "\<forall>i. i < reconnectRetries \<longrightarrow> SubscribeFilterLogs (?w1 i) \<noteq> None"
    by simp
  have l: "map (\<lambda>j. 5 * j) [0..<10] = [0, 5, 10, 15, 20, 25, 30, 35, 40, 45::nat]"
    by (simp add: upt_rec)
  have a: "handleSubscriptionError ?w1 sampleLayer
     = \<lparr>sleeps = [0, 5, 10, 15, 20, 25, 30, 35, 40, 45], attempts = 10,
        outcome = Inl CouldntReconnect\<rparr>"
    using reconnect_attempts_and_delays[of ?w1 sampleLayer] sh allfail l by simp
  have b1: "2 < reconnectRetries" by (simp add: reconnectRetries_def)
  have b2: "\<forall>j. j < 2 \<longrightarrow> SubscribeFilterLogs (?w2 j) \<noteq> None" by simp
  have b3: "SubscribeFilterLogs (?w2 2) = None" "SubscribeNewHead (?w2 2) = None"
    by (simp_all add: sampleRpc_def)
  have b4: "backfillEvents (?w2 2) (sampleLayer\<lparr>ethclientShutdownCb := True\<rparr>)
      = Inr \<lparr>err = Some (RpcError 3), filterCalls = [], debug = None,
             el = sampleLayer\<lparr>ethclientShutdownCb := True\<rparr>\<rparr>"
    by (simp add: backfillEvents_def)
  have b5: "err \<lparr>err = Some (RpcError 3), filterCalls = [], debug = None,
             el = sampleLayer\<lparr>ethclientShutdownCb := True\<rparr>\<rparr> = Some (RpcError 3)"
    by simp
  have l2: "map (\<lambda>j. 5 * j) [0..<2] = [0, 5::nat]" by (simp add: upt_rec)
  have "handleSubscriptionError ?w2 sampleLayer =
      \<lparr>sleeps = map (\<lambda>j. 5 * j) [0..<2], attempts = Suc 2, outcome = Inl CouldntBackfill\<rparr>"
    using reconnect_attempts_and_delays[of ?w2 sampleLayer] sh b1 b2 b3 b4 b5 by blast
  with l2 have b: "handleSubscriptionError ?w2 sampleLayer
       = \<lparr>sleeps = [0, 5], attempts = 3, outcome = Inl CouldntBackfill\<rparr>"
    by (simp add: numeral_3_eq_3)
  have d1: "1 < reconnectRetries" by (simp add: reconnectRetries_def)
  have d2: "\<forall>j. j < 1 \<longrightarrow> SubscribeFilterLogs (?w3 j) \<noteq> None" by simp
  have d3: "SubscribeFilterLogs (?w3 1) = None" by (simp add: sampleRpc_def)
  have d4: "(case SubscribeNewHead (?w3 1) of
                 Some x \<Rightarrow> Inl CouldntReconnect
               | None \<Rightarrow>
                   (case backfillEvents (?w3 1) (sampleLayer\<lparr>ethclientShutdownCb := True\<rparr>) of
                      Inl p \<Rightarrow> Inl p
                    | Inr r \<Rightarrow>
                        (case err r of
                           Some x \<Rightarrow> Inl CouldntBackfill
                         | None \<Rightarrow> Inr (el r))))
            = Inr (sampleLayer\<lparr>ethclientShutdownCb := True\<rparr>)"
    by (simp add: backfillEvents_def backfillStart_def sampleRpc_def sampleLayer_def
        NewExecutionLayer_def)
  have "sleeps (handleSubscriptionError ?w3 sampleLayer) = map (\<lambda>j. 5 * j) [0..<1]
      \<and> attempts (handleSubscriptionError ?w3 sampleLayer) = Suc 1
      \<and> outcome (handleSubscriptionError ?w3 sampleLayer)
          = (case SubscribeNewHead (?w3 1) of
                 Some x \<Rightarrow> Inl CouldntReconnect
               | None \<Rightarrow>
                   (case backfillEvents (?w3 1) (sampleLayer\<lparr>ethclientShutdownCb := True\<rparr>) of
                      Inl p \<Rightarrow> Inl p
                    | Inr r \<Rightarrow>
                        (case err r of
                           Some x \<Rightarrow> Inl CouldntBackfill
                         | None \<Rightarrow> Inr (el r))))"
    using reconnect_attempts_and_delays[of ?w3 sampleLayer] sh d1 d2 d3 by blast
  with d4 have "sleeps (handleSubscriptionError ?w3 sampleLayer) = [0]
      \<and> attempts (handleSubscriptionError ?w3 sampleLayer) = 2
      \<and> outcome (handleSubscriptionError ?w3 sampleLayer)
          = Inr (sampleLayer\<lparr>ethclientShutdownCb := True\<rparr>)"
    by (simp only: upt_rec[of 0 1] upt_rec[of "Suc 0" 1] One_nat_def) simp
  then have c: "handleSubscriptionError ?w3 sampleLayer
       = \<lparr>sleeps = [0], attempts = 2,
          outcome = Inr (sampleLayer\<lparr>ethclientShutdownCb := True\<rparr>)\<rparr>"
    by (cases "handleSubscriptionError ?w3 sampleLayer") simp
  from a b c show ?thesis by simp
qed

end
